theory Spec2Isabelle
  imports Main "HOL-Library.Word" "HOL-Library.Monad_Syntax"
begin

section \<open>The AWS starter demo: data model\<close>

text \<open>
  The embedding follows \<^verbatim>\<open>sample_apps/aws_starter_demo/src/main.c\<close>. The file-scope
  variables of the program are the fields of one record; every function of the program
  that touches them takes the record and returns the updated one. Calls into the SDK
  (shadow client, thread creation, GPIO) are not part of the file: their return codes are
  parameters of the functions that make the calls, the calls made to the shadow client
  are listed in the result of the function that makes them, and the two LEDs are kept as
  the level last driven by \<^verbatim>\<open>led_on\<close>/\<^verbatim>\<open>led_off\<close>.

  Each function of the program is taken as one atomic step; the interrupt callbacks and
  the cloud thread interleave between such steps.
\<close>

type_synonym uint32_t = "32 word"
type_synonym c_int = "32 word"

text \<open>
  Return codes. The SDK header that defines \<^verbatim>\<open>WM_SUCCESS\<close> and \<^verbatim>\<open>WM_FAIL\<close> is not
  part of the file; they are taken as 0 and 1. The program only ever compares a return
  code with \<^verbatim>\<open>WM_SUCCESS\<close>.
\<close>

definition WM_SUCCESS :: int where
  "WM_SUCCESS = 0"

definition WM_FAIL :: int where
  "WM_FAIL = 1"

text \<open>
  \<^verbatim>\<open>enum state { AWS_CONNECTED = 1, AWS_RECONNECTED, AWS_DISCONNECTED }\<close>; the variable
  \<^verbatim>\<open>device_state\<close> has static storage and therefore starts as 0, which is none of
  the three enumerators.
\<close>

definition AWS_CONNECTED :: int where
  "AWS_CONNECTED = 1"

definition AWS_RECONNECTED :: int where
  "AWS_RECONNECTED = 2"

definition AWS_DISCONNECTED :: int where
  "AWS_DISCONNECTED = 3"

text \<open>The one thread handle \<^verbatim>\<open>aws_starter_thread\<close>, by how far its thread has come.\<close>

datatype thread_phase = Not_Created | In_Setup | In_Loop | Completed

record dev =
  pushbutton_a_count :: uint32_t
  pushbutton_a_count_prev :: uint32_t
  pushbutton_b_count :: uint32_t
  pushbutton_b_count_prev :: uint32_t
  led_1_state :: uint32_t
  led_1_state_prev :: uint32_t
  device_state :: int
  led_1 :: bool
  board_led_2 :: bool
  aws_starter_thread :: thread_phase
  threads_created :: nat

text \<open>
  The state at program start: counters zero-initialised, every \<^verbatim>\<open>_prev\<close> variable
  initialised with \<^verbatim>\<open>-1\<close> converted to \<^verbatim>\<open>uint32_t\<close>, no thread yet.
\<close>

definition boot :: dev where
  "boot = \<lparr> pushbutton_a_count = 0, pushbutton_a_count_prev = - 1,
            pushbutton_b_count = 0, pushbutton_b_count_prev = - 1,
            led_1_state = 0, led_1_state_prev = - 1,
            device_state = 0, led_1 = False, board_led_2 = False,
            aws_starter_thread = Not_Created, threads_created = 0 \<rparr>"

section \<open>Input callbacks\<close>

definition pushbutton_a_cb :: "dev \<Rightarrow> dev" where
  "pushbutton_a_cb s =
     (if pushbutton_a_count_prev s = pushbutton_a_count s
      then s\<lparr>pushbutton_a_count := pushbutton_a_count s + 1\<rparr>
      else s)"

definition pushbutton_b_cb :: "dev \<Rightarrow> dev" where
  "pushbutton_b_cb s =
     (if pushbutton_b_count_prev s = pushbutton_b_count s
      then s\<lparr>pushbutton_b_count := pushbutton_b_count s + 1\<rparr>
      else s)"

text \<open>
  \<^verbatim>\<open>led_indicator_cb\<close>: the argument is \<^verbatim>\<open>p_context\<close>, \<open>None\<close> for a null pointer and
  otherwise the \<^verbatim>\<open>int\<close> that \<^verbatim>\<open>p_context->pData\<close> points to.
\<close>

definition led_indicator_cb :: "c_int option \<Rightarrow> dev \<Rightarrow> dev" where
  "led_indicator_cb p_context s =
     (case p_context of
        None \<Rightarrow> s
      | Some state \<Rightarrow>
          if state \<noteq> 0 then s\<lparr>led_1 := True, led_1_state := 1\<rparr>
          else s\<lparr>led_1 := False, led_1_state := 0\<rparr>)"

section \<open>Building and publishing the shadow update\<close>

definition BUFSIZE :: nat where
  "BUFSIZE = 128"

definition VAR_LED_1_PROPERTY :: string where
  "VAR_LED_1_PROPERTY = ''led''"

definition VAR_BUTTON_A_PROPERTY :: string where
  "VAR_BUTTON_A_PROPERTY = ''pb''"

definition VAR_BUTTON_B_PROPERTY :: string where
  "VAR_BUTTON_B_PROPERTY = ''pb_lambda''"

text \<open>
  The conversion \<^verbatim>\<open>%lu\<close>: an unsigned number in decimal, no padding. On the 32-bit
  target \<^verbatim>\<open>unsigned long\<close> is as wide as \<^verbatim>\<open>uint32_t\<close>, so the number printed is the
  value of the variable.
\<close>

fun dec :: "nat \<Rightarrow> string" where
  "dec n = (if n < 10 then [''0123456789'' ! n]
            else dec (n div 10) @ [''0123456789'' ! (n mod 10)])"

declare dec.simps [simp del]

text \<open>The two format strings of the program, applied to their arguments.\<close>

definition fmt_property :: "string \<Rightarrow> uint32_t \<Rightarrow> string" where
  \<open>fmt_property key v = '',"'' @ key @ ''":'' @ dec (unat v)\<close>

definition fmt_document :: "string \<Rightarrow> string" where
  \<open>fmt_document ptr = ''{"state": {"reported":{'' @ ptr @ ''}}}''\<close>

text \<open>
  \<^verbatim>\<open>snprintf(buf, size, ...)\<close> stores at most \<open>size - 1\<close> characters of the formatted
  text. \<^verbatim>\<open>strcat\<close> into the array \<^verbatim>\<open>state[BUFSIZE]\<close> is defined only while the result
  and its terminator fit; writing past the array is \<open>None\<close>.
\<close>

definition snprintf :: "nat \<Rightarrow> string \<Rightarrow> string" where
  "snprintf n formatted = take (n - 1) formatted"

definition strcat :: "string \<Rightarrow> string \<Rightarrow> string option" where
  "strcat dest src =
     (if length dest + length src < BUFSIZE then Some (dest @ src) else None)"

text \<open>
  \<^verbatim>\<open>aws_publish_property_state\<close>. The first argument is the return code of
  \<^verbatim>\<open>aws_iot_shadow_update\<close> for a given document. The result holds the function's return
  value, the document passed to \<^verbatim>\<open>aws_iot_shadow_update\<close> if that call was made, and the
  new state.
\<close>

definition aws_publish_property_state ::
    "(string \<Rightarrow> int) \<Rightarrow> dev \<Rightarrow> (int \<times> string option \<times> dev) option" where
  "aws_publish_property_state aws_iot_shadow_update s0 = do {
     let state = [];
     (state, s1) \<leftarrow>
       (if pushbutton_a_count_prev s0 \<noteq> pushbutton_a_count s0 then do {
          let buf_out = snprintf BUFSIZE
                (fmt_property VAR_BUTTON_A_PROPERTY (pushbutton_a_count s0));
          state \<leftarrow> strcat state buf_out;
          Some (state, s0\<lparr>pushbutton_a_count_prev := pushbutton_a_count s0\<rparr>)
        } else Some (state, s0));
     (state, s2) \<leftarrow>
       (if pushbutton_b_count_prev s1 \<noteq> pushbutton_b_count s1 then do {
          let buf_out = snprintf BUFSIZE
                (fmt_property VAR_BUTTON_B_PROPERTY (pushbutton_b_count s1));
          state \<leftarrow> strcat state buf_out;
          Some (state, s1\<lparr>pushbutton_b_count_prev := pushbutton_b_count s1\<rparr>)
        } else Some (state, s1));
     (state, s3) \<leftarrow>
       (if led_1_state_prev s2 \<noteq> led_1_state s2 then do {
          let buf_out = snprintf BUFSIZE
                (fmt_property VAR_LED_1_PROPERTY (led_1_state s2));
          state \<leftarrow> strcat state buf_out;
          Some (state, s2\<lparr>led_1_state_prev := led_1_state s2\<rparr>)
        } else Some (state, s2));
     let ptr = (case state of [] \<Rightarrow> state
                | c # rest \<Rightarrow> if c = CHR '','' then rest else state);
     if length state \<noteq> 0 then do {
       let buf_out = snprintf BUFSIZE (fmt_document ptr);
       Some (aws_iot_shadow_update buf_out, Some buf_out, s3)
     } else Some (WM_SUCCESS, None, s3)
   }"


section \<open>Acknowledgement callback\<close>

datatype Shadow_Ack_Status_t = SHADOW_ACK_TIMEOUT | SHADOW_ACK_REJECTED | SHADOW_ACK_ACCEPTED

text \<open>
  \<^verbatim>\<open>shadow_update_status_cb\<close> prints one line per status, ended by carriage return and
  line feed, and touches no variable of the program: the result is the printed text and
  the state as it was.
\<close>

definition shadow_update_status_cb :: "Shadow_Ack_Status_t \<Rightarrow> dev \<Rightarrow> string \<times> dev" where
  "shadow_update_status_cb status s =
     (if status = SHADOW_ACK_TIMEOUT
        then (''Shadow publish state change timeout occurred'' @ [CHR 0x0D, CHR 0x0A], s)
      else if status = SHADOW_ACK_REJECTED
        then (''Shadow publish state change rejected'' @ [CHR 0x0D, CHR 0x0A], s)
      else if status = SHADOW_ACK_ACCEPTED
        then (''Shadow publish state change accepted'' @ [CHR 0x0D, CHR 0x0A], s)
      else ([], s))"

section \<open>The cloud thread\<close>

text \<open>
  What the SDK does during one pass of the thread: the return codes of the calls the pass
  makes, and the callbacks that \<^verbatim>\<open>aws_iot_shadow_yield\<close> delivers (acknowledgements of
  earlier updates, and delta notifications for the key \<^verbatim>\<open>led\<close>, each with the
  \<^verbatim>\<open>p_context\<close> it is called with).
\<close>

record sdk =
  read_aws_thing_ret :: int
  read_aws_device_mac_ret :: int
  read_aws_region_ret :: int
  read_aws_certificate_ret :: int
  read_aws_key_ret :: int
  shadow_init_ret :: int
  shadow_connect_ret :: int
  register_delta_ret :: int
  ack_callbacks :: "Shadow_Ack_Status_t list"
  delta_callbacks :: "c_int option list"
  shadow_update_ret :: "string \<Rightarrow> int"

datatype sdk_call =
  Shadow_Init | Shadow_Connect | Register_Delta | Shadow_Yield
  | Shadow_Update string | Thread_Sleep | Shadow_Disconnect

text \<open>
  \<^verbatim>\<open>aws_starter_load_configuration\<close>, by its return value: the strings it stores in the
  shadow parameters play no part below. A region that cannot be read is replaced by the
  default region, without an error.
\<close>

definition aws_starter_load_configuration :: "sdk \<Rightarrow> int" where
  "aws_starter_load_configuration e =
     (if read_aws_thing_ret e \<noteq> WM_SUCCESS then - WM_FAIL
      else if read_aws_device_mac_ret e \<noteq> WM_SUCCESS then - WM_FAIL
      else if read_aws_certificate_ret e \<noteq> WM_SUCCESS then - WM_FAIL
      else if read_aws_key_ret e \<noteq> WM_SUCCESS then - WM_FAIL
      else read_aws_key_ret e)"

text \<open>
  \<^verbatim>\<open>aws_starter_demo\<close> up to the loop. The result says whether the loop is entered
  (\<open>False\<close> is \<^verbatim>\<open>goto out\<close>), and lists the shadow calls made.
\<close>

definition aws_starter_demo_setup :: "sdk \<Rightarrow> dev \<Rightarrow> bool \<times> sdk_call list \<times> dev" where
  "aws_starter_demo_setup e s =
     (if aws_starter_load_configuration e \<noteq> WM_SUCCESS then (False, [], s)
      else if shadow_init_ret e \<noteq> WM_SUCCESS then (False, [Shadow_Init], s)
      else if shadow_connect_ret e \<noteq> WM_SUCCESS then (False, [Shadow_Init, Shadow_Connect], s)
      else if register_delta_ret e \<noteq> WM_SUCCESS
        then (False, [Shadow_Init, Shadow_Connect, Register_Delta], s\<lparr>board_led_2 := True\<rparr>)
      else (True, [Shadow_Init, Shadow_Connect, Register_Delta], s\<lparr>board_led_2 := True\<rparr>))"

text \<open>
  One pass of the body of \<^verbatim>\<open>while (1)\<close>. \<open>False\<close> in the result is \<^verbatim>\<open>goto out\<close>: the
  thread completes. The return value of \<^verbatim>\<open>aws_publish_property_state\<close> only selects a
  message to print.
\<close>

definition aws_starter_demo_loop :: "sdk \<Rightarrow> dev \<Rightarrow> (bool \<times> sdk_call list \<times> dev) option" where
  "aws_starter_demo_loop e s0 =
     (if device_state s0 = AWS_RECONNECTED \<and> shadow_init_ret e \<noteq> WM_SUCCESS
        then Some (False, [Shadow_Init], s0)
      else if device_state s0 = AWS_RECONNECTED \<and> shadow_connect_ret e \<noteq> WM_SUCCESS
        then Some (False, [Shadow_Init, Shadow_Connect], s0)
      else do {
        let (calls, s1) =
          (if device_state s0 = AWS_RECONNECTED
           then ([Shadow_Init, Shadow_Connect, Register_Delta],
                 s0\<lparr>device_state := AWS_CONNECTED, board_led_2 := True\<rparr>)
           else ([], s0));
        let s2 = fold (\<lambda>status s. snd (shadow_update_status_cb status s)) (ack_callbacks e) s1;
        let s3 = fold led_indicator_cb (delta_callbacks e) s2;
        (ret, doc, s4) \<leftarrow> aws_publish_property_state (shadow_update_ret e) s3;
        Some (True,
              calls @ [Shadow_Yield]
                @ (case doc of None \<Rightarrow> [] | Some d \<Rightarrow> [Shadow_Update d])
                @ [Thread_Sleep],
              s4)
      })"

section \<open>Network events\<close>

text \<open>
  \<^verbatim>\<open>wlan_event_normal_link_lost\<close> and \<^verbatim>\<open>wlan_event_normal_connect_failed\<close> call
  \<^verbatim>\<open>aws_iot_shadow_disconnect\<close>, in whatever state they are invoked, and then set the
  state. The result lists the call and gives the new state.
\<close>

definition wlan_event_normal_link_lost :: "dev \<Rightarrow> sdk_call list \<times> dev" where
  "wlan_event_normal_link_lost s =
     ([Shadow_Disconnect], s\<lparr>device_state := AWS_DISCONNECTED\<rparr>)"

definition wlan_event_normal_connect_failed :: "dev \<Rightarrow> sdk_call list \<times> dev" where
  "wlan_event_normal_connect_failed s =
     ([Shadow_Disconnect], s\<lparr>device_state := AWS_DISCONNECTED\<rparr>)"

text \<open>
  \<^verbatim>\<open>wlan_event_normal_connected\<close>; the first argument is the return code of
  \<^verbatim>\<open>os_thread_create\<close>, should the call be made. A failed creation returns early.
\<close>

definition wlan_event_normal_connected :: "int \<Rightarrow> dev \<Rightarrow> dev" where
  "wlan_event_normal_connected thread_create_ret s =
     (if device_state s = 0 \<and> thread_create_ret \<noteq> WM_SUCCESS then s
      else
        let s1 = (if device_state s = 0
                  then s\<lparr>aws_starter_thread := In_Setup,
                         threads_created := threads_created s + 1\<rparr>
                  else s)
        in if device_state s1 = 0 then s1\<lparr>device_state := AWS_CONNECTED\<rparr>
           else if device_state s1 = AWS_DISCONNECTED then s1\<lparr>device_state := AWS_RECONNECTED\<rparr>
           else s1)"

section \<open>Runs of the program\<close>

text \<open>
  The things that happen to the program after \<^verbatim>\<open>main\<close> has installed the callbacks:
  a button press, a network event, and a pass of the cloud thread (its setup once, then
  loop passes while it is in the loop).
\<close>

datatype event =
  Pushbutton_A | Pushbutton_B
  | Link_Lost | Connect_Failed | Link_Connected int
  | Thread_Setup sdk | Thread_Loop sdk

fun fire :: "event \<Rightarrow> dev \<Rightarrow> dev" where
  "fire Pushbutton_A s = pushbutton_a_cb s"
| "fire Pushbutton_B s = pushbutton_b_cb s"
| "fire Link_Lost s = snd (wlan_event_normal_link_lost s)"
| "fire Connect_Failed s = snd (wlan_event_normal_connect_failed s)"
| "fire (Link_Connected thread_create_ret) s = wlan_event_normal_connected thread_create_ret s"
| "fire (Thread_Setup e) s =
     (if aws_starter_thread s = In_Setup
      then (case aws_starter_demo_setup e s of
              (go, calls, s') \<Rightarrow> s'\<lparr>aws_starter_thread := (if go then In_Loop else Completed)\<rparr>)
      else s)"
| "fire (Thread_Loop e) s =
     (if aws_starter_thread s = In_Loop
      then (case aws_starter_demo_loop e s of
              None \<Rightarrow> s\<lparr>aws_starter_thread := Completed\<rparr>
            | Some (go, calls, s') \<Rightarrow>
                s'\<lparr>aws_starter_thread := (if go then In_Loop else Completed)\<rparr>)
      else s)"

definition run :: "event list \<Rightarrow> dev \<Rightarrow> dev" where
  "run es s = fold fire es s"

text \<open>The documents handed to \<^verbatim>\<open>aws_iot_shadow_update\<close> among a list of calls.\<close>

fun documents :: "sdk_call list \<Rightarrow> string list" where
  "documents [] = []"
| "documents (Shadow_Update d # cs) = d # documents cs"
| "documents (c # cs) = documents cs"

text \<open>An SDK pass in which every call succeeds and no callback is delivered.\<close>

definition sdk_quiet :: sdk where
  "sdk_quiet = \<lparr> read_aws_thing_ret = WM_SUCCESS, read_aws_device_mac_ret = WM_SUCCESS,
                 read_aws_region_ret = WM_SUCCESS, read_aws_certificate_ret = WM_SUCCESS,
                 read_aws_key_ret = WM_SUCCESS, shadow_init_ret = WM_SUCCESS,
                 shadow_connect_ret = WM_SUCCESS, register_delta_ret = WM_SUCCESS,
                 ack_callbacks = [], delta_callbacks = [],
                 shadow_update_ret = (\<lambda>d. WM_SUCCESS) \<rparr>"

text \<open>A state in which button A's count 3 and the LED state 1 are unreported.\<close>

definition three_and_on :: dev where
  "three_and_on = boot\<lparr>pushbutton_a_count := 3, pushbutton_a_count_prev := 2,
       pushbutton_b_count_prev := 0, led_1_state := 1, led_1_state_prev := 0\<rparr>"


text \<open>A state in which the cloud thread is in its loop and the link has come back.\<close>

definition reconnecting :: dev where
  "reconnecting = boot\<lparr>device_state := AWS_RECONNECTED, aws_starter_thread := In_Loop,
      threads_created := 1\<rparr>"

text \<open>
  The invariant behind the single cloud thread: at most one thread was created, and none
  while \<^verbatim>\<open>device_state\<close> is still 0.
\<close>

definition created_once :: "dev \<Rightarrow> bool" where
  "created_once s \<longleftrightarrow> threads_created s \<le> 1 \<and> (device_state s = 0 \<longrightarrow> threads_created s = 0)"

text \<open>
  The states in which \<^verbatim>\<open>device_state\<close> has left 0 although no cloud thread was ever
  created and the state has not been Connected.
\<close>

definition never_started :: "dev \<Rightarrow> bool" where
  "never_started s \<longleftrightarrow>
     device_state s \<noteq> 0 \<and> device_state s \<noteq> AWS_CONNECTED \<and>
     aws_starter_thread s = Not_Created \<and> threads_created s = 0"

section \<open>The specification's vocabulary\<close>

text \<open>
  The specification speaks of a field tracker and an encoder. These definitions follow
  its words, to be compared with the program: \<open>changed_fields\<close> lists the fields whose
  current value differs from the last reported one, in the order pb, pb\_lambda, led;
  \<open>encode\<close> gives no document for an empty list and otherwise the document with the
  listed fields, comma separated, each as \<open>"name":decimal\<close>; \<open>mark_reported\<close> sets every
  last reported value to the current one.
\<close>

type_synonym pending_update = "(string \<times> uint32_t) list"

definition changed_fields :: "dev \<Rightarrow> pending_update" where
  "changed_fields s =
     (if pushbutton_a_count s \<noteq> pushbutton_a_count_prev s
      then [(''pb'', pushbutton_a_count s)] else []) @
     (if pushbutton_b_count s \<noteq> pushbutton_b_count_prev s
      then [(''pb_lambda'', pushbutton_b_count s)] else []) @
     (if led_1_state s \<noteq> led_1_state_prev s
      then [(''led'', led_1_state s)] else [])"

definition render_field :: "string \<times> uint32_t \<Rightarrow> string" where
  \<open>render_field kv = ''"'' @ fst kv @ ''":'' @ dec (unat (snd kv))\<close>

fun join_fields :: "string list \<Rightarrow> string" where
  "join_fields [] = []"
| "join_fields [x] = x"
| "join_fields (x # y # ys) = x @ '','' @ join_fields (y # ys)"

definition encode :: "pending_update \<Rightarrow> string option" where
  \<open>encode pending =
     (if pending = [] then None
      else Some (''{"state": {"reported":{''
                 @ join_fields (map render_field pending) @ ''}}}''))\<close>

definition mark_reported :: "dev \<Rightarrow> dev" where
  "mark_reported s =
     s\<lparr>pushbutton_a_count_prev := pushbutton_a_count s,
       pushbutton_b_count_prev := pushbutton_b_count s,
       led_1_state_prev := led_1_state s\<rparr>"

text \<open>Reading a decimal numeral back, to state that \<open>dec\<close> writes the number it is given.\<close>

definition digit_value :: "char \<Rightarrow> nat option" where
  "digit_value c = map_of (zip ''0123456789'' [0 ..< 10]) c"

fun undec :: "nat \<Rightarrow> string \<Rightarrow> nat option" where
  "undec acc [] = Some acc"
| "undec acc (c # cs) =
     (case digit_value c of None \<Rightarrow> None | Some d \<Rightarrow> undec (10 * acc + d) cs)"

section \<open>Facts about the string functions\<close>

lemma dec_digit: "n < 10 \<Longrightarrow> dec n = [''0123456789'' ! n]"
  by (simp add: dec.simps)

lemma dec_more: "10 \<le> n \<Longrightarrow> dec n = dec (n div 10) @ [''0123456789'' ! (n mod 10)]"
  by (subst dec.simps) simp

lemma length_dec_pow: "n < 10 ^ k \<Longrightarrow> 0 < k \<Longrightarrow> length (dec n) \<le> k"
proof (induction k arbitrary: n)
  case 0
  then show ?case by simp
next
  case (Suc k)
  show ?case
  proof (cases "n < 10")
    case True
    then show ?thesis by (simp add: dec_digit)
  next
    case False
    then have k: "0 < k" using Suc.prems by (cases k) auto
    have "n div 10 < 10 ^ k"
      using Suc.prems by (simp add: less_mult_imp_div_less mult.commute)
    then have "length (dec (n div 10)) \<le> k" using Suc.IH k by blast
    then show ?thesis using False by (simp add: dec_more)
  qed
qed

lemma length_dec_u32: "length (dec (unat (v :: uint32_t))) \<le> 10"
proof -
  have "unat v < 2 ^ 32" using unsigned_less [of v] by simp
  then have "unat v < 10 ^ 10" by simp
  then show ?thesis by (rule length_dec_pow) simp
qed

lemma snprintf_fits: "length str < n \<Longrightarrow> snprintf n str = str"
  by (simp add: snprintf_def)

lemma length_fmt_property: "length (fmt_property key v) \<le> length key + 14"
  using length_dec_u32 [of v] by (simp add: fmt_property_def)

lemma fmt_property_render: \<open>fmt_property key v = '','' @ render_field (key, v)\<close>
  by (simp add: fmt_property_def render_field_def)

section \<open>The publish function in closed form\<close>

text \<open>
  No buffer of \<^verbatim>\<open>aws_publish_property_state\<close> overflows or truncates: three properties
  take at most 16, 23 and 17 characters. So the function always returns, and it does what
  the specification's tracker and encoder say.
\<close>

lemma publish_closed:
  "aws_publish_property_state u s =
     Some (case encode (changed_fields s) of None \<Rightarrow> WM_SUCCESS | Some d \<Rightarrow> u d,
           encode (changed_fields s), mark_reported s)"
proof -
  have a: "length (fmt_property VAR_BUTTON_A_PROPERTY v) \<le> 16" for v
    using length_fmt_property [of VAR_BUTTON_A_PROPERTY v]
    by (simp add: VAR_BUTTON_A_PROPERTY_def)
  have b: "length (fmt_property VAR_BUTTON_B_PROPERTY v) \<le> 23" for v
    using length_fmt_property [of VAR_BUTTON_B_PROPERTY v]
    by (simp add: VAR_BUTTON_B_PROPERTY_def)
  have l: "length (fmt_property VAR_LED_1_PROPERTY v) \<le> 17" for v
    using length_fmt_property [of VAR_LED_1_PROPERTY v]
    by (simp add: VAR_LED_1_PROPERTY_def)
  show ?thesis
    using a [of "pushbutton_a_count s"] b [of "pushbutton_b_count s"] l [of "led_1_state s"]
    apply (simp add: aws_publish_property_state_def Let_def strcat_def snprintf_def BUFSIZE_def
        changed_fields_def encode_def mark_reported_def fmt_document_def)
    apply (auto simp: fmt_property_render VAR_BUTTON_A_PROPERTY_def
        VAR_BUTTON_B_PROPERTY_def VAR_LED_1_PROPERTY_def)
    done
qed

section \<open>The loop pass in closed form\<close>

lemma fold_ack_callbacks:
  "fold (\<lambda>status s. snd (shadow_update_status_cb status s)) acks s = s"
  by (induction acks) (simp_all add: shadow_update_status_cb_def)

lemma led_indicator_cb_frame:
  "\<exists>b v. led_indicator_cb d s = s\<lparr>led_1 := b, led_1_state := v\<rparr>"
proof (cases d)
  case None
  have "s = s\<lparr>led_1 := led_1 s, led_1_state := led_1_state s\<rparr>" by simp
  then show ?thesis unfolding None led_indicator_cb_def option.case by blast
next
  case (Some state)
  show ?thesis unfolding Some led_indicator_cb_def option.case
    by (cases "state = 0") auto
qed

lemma fold_delta_callbacks:
  "\<exists>b v. fold led_indicator_cb ds s = s\<lparr>led_1 := b, led_1_state := v\<rparr>"
proof (induction ds arbitrary: s)
  case Nil
  have "s = s\<lparr>led_1 := led_1 s, led_1_state := led_1_state s\<rparr>" by simp
  then show ?case unfolding fold_simps by blast
next
  case (Cons d ds)
  obtain b v where step: "led_indicator_cb d s = s\<lparr>led_1 := b, led_1_state := v\<rparr>"
    using led_indicator_cb_frame by blast
  obtain b' v' where "fold led_indicator_cb ds (s\<lparr>led_1 := b, led_1_state := v\<rparr>)
      = s\<lparr>led_1 := b, led_1_state := v\<rparr>\<lparr>led_1 := b', led_1_state := v'\<rparr>"
    using Cons.IH by blast
  then have "fold led_indicator_cb (d # ds) s = s\<lparr>led_1 := b', led_1_state := v'\<rparr>"
    by (simp add: step)
  then show ?case by blast
qed

lemma loop_closed:
  "aws_starter_demo_loop e s =
     Some (if device_state s = AWS_RECONNECTED \<and> shadow_init_ret e \<noteq> WM_SUCCESS
             then (False, [Shadow_Init], s)
           else if device_state s = AWS_RECONNECTED \<and> shadow_connect_ret e \<noteq> WM_SUCCESS
             then (False, [Shadow_Init, Shadow_Connect], s)
           else
             let s1 = (if device_state s = AWS_RECONNECTED
                       then s\<lparr>device_state := AWS_CONNECTED, board_led_2 := True\<rparr> else s);
                 s3 = fold led_indicator_cb (delta_callbacks e) s1
             in (True,
                 (if device_state s = AWS_RECONNECTED
                  then [Shadow_Init, Shadow_Connect, Register_Delta] else [])
                 @ [Shadow_Yield]
                 @ (case encode (changed_fields s3) of None \<Rightarrow> [] | Some d \<Rightarrow> [Shadow_Update d])
                 @ [Thread_Sleep],
                 mark_reported s3))"
  by (simp add: aws_starter_demo_loop_def publish_closed fold_ack_callbacks Let_def)

lemma changed_fields_mark_reported: "changed_fields (mark_reported s) = []"
  by (simp add: changed_fields_def mark_reported_def)

lemma changed_fields_empty_iff:
  "changed_fields s = [] \<longleftrightarrow>
     pushbutton_a_count_prev s = pushbutton_a_count s \<and>
     pushbutton_b_count_prev s = pushbutton_b_count s \<and>
     led_1_state_prev s = led_1_state s"
  by (auto simp: changed_fields_def)

lemma mark_reported_unchanged: "changed_fields s = [] \<Longrightarrow> mark_reported s = s"
  by (simp add: changed_fields_empty_iff mark_reported_def)

lemma undec_append: "undec acc (xs @ ys) = (case undec acc xs of None \<Rightarrow> None | Some a \<Rightarrow> undec a ys)"
  by (induction xs arbitrary: acc) (auto split: option.splits)

lemma digit_value_digit: "d < 10 \<Longrightarrow> digit_value (''0123456789'' ! d) = Some d"
proof -
  assume "d < 10"
  then have "d \<in> {0,1,2,3,4,5,6,7,8,9}" by auto
  then show ?thesis by (auto simp: digit_value_def upt_rec)
qed

lemma undec_dec: "undec 0 (dec n) = Some n"
proof (induction n rule: dec.induct)
  case (1 n)
  show ?case
  proof (cases "n < 10")
    case True
    then show ?thesis by (simp add: dec_digit digit_value_digit)
  next
    case False
    then have "undec 0 (dec (n div 10)) = Some (n div 10)" using "1" by simp
    then show ?thesis using False
      by (simp add: dec_more undec_append digit_value_digit)
  qed
qed

section \<open>What an event does to the connection state and the thread count\<close>

lemma fold_delta_device_state [simp]:
  "device_state (fold led_indicator_cb ds s) = device_state s"
  and fold_delta_threads_created [simp]:
  "threads_created (fold led_indicator_cb ds s) = threads_created s"
  and fold_delta_thread [simp]:
  "aws_starter_thread (fold led_indicator_cb ds s) = aws_starter_thread s"
proof -
  obtain b v where "fold led_indicator_cb ds s = s\<lparr>led_1 := b, led_1_state := v\<rparr>"
    using fold_delta_callbacks by blast
  then show "device_state (fold led_indicator_cb ds s) = device_state s"
    and "threads_created (fold led_indicator_cb ds s) = threads_created s"
    and "aws_starter_thread (fold led_indicator_cb ds s) = aws_starter_thread s"
    by simp_all
qed

lemma loop_device_state:
  "aws_starter_demo_loop e s = Some (go, calls, s') \<Longrightarrow>
   device_state s' =
     (if device_state s = AWS_RECONNECTED \<and> shadow_init_ret e = WM_SUCCESS
         \<and> shadow_connect_ret e = WM_SUCCESS
      then AWS_CONNECTED else device_state s)"
  by (auto simp: loop_closed Let_def mark_reported_def split: if_splits)

lemma loop_threads_created:
  "aws_starter_demo_loop e s = Some (go, calls, s') \<Longrightarrow> threads_created s' = threads_created s"
  by (auto simp: loop_closed Let_def mark_reported_def split: if_splits)

lemma setup_frame:
  "aws_starter_demo_setup e s = (go, calls, s') \<Longrightarrow>
   device_state s' = device_state s \<and> threads_created s' = threads_created s"
  by (auto simp: aws_starter_demo_setup_def split: if_splits)

lemma fire_device_state:
  "device_state (fire ev s) =
     (case ev of
        Link_Lost \<Rightarrow> AWS_DISCONNECTED
      | Connect_Failed \<Rightarrow> AWS_DISCONNECTED
      | Link_Connected r \<Rightarrow>
          if device_state s = 0 then (if r = WM_SUCCESS then AWS_CONNECTED else 0)
          else if device_state s = AWS_DISCONNECTED then AWS_RECONNECTED
          else device_state s
      | Thread_Loop e \<Rightarrow>
          if aws_starter_thread s = In_Loop \<and> device_state s = AWS_RECONNECTED
             \<and> shadow_init_ret e = WM_SUCCESS \<and> shadow_connect_ret e = WM_SUCCESS
          then AWS_CONNECTED else device_state s
      | _ \<Rightarrow> device_state s)"
proof (cases ev)
  case (Thread_Setup e)
  then show ?thesis
    by (cases "aws_starter_demo_setup e s") (auto dest: setup_frame)
next
  case (Thread_Loop e)
  then show ?thesis
    by (auto simp: loop_closed Let_def mark_reported_def)
qed (auto simp: pushbutton_a_cb_def pushbutton_b_cb_def wlan_event_normal_link_lost_def
      wlan_event_normal_connect_failed_def wlan_event_normal_connected_def Let_def
      AWS_DISCONNECTED_def)

lemma fire_threads_created:
  "threads_created (fire ev s) =
     (case ev of
        Link_Connected r \<Rightarrow>
          if device_state s = 0 \<and> r = WM_SUCCESS then threads_created s + 1
          else threads_created s
      | _ \<Rightarrow> threads_created s)"
proof (cases ev)
  case (Thread_Setup e)
  then show ?thesis
    by (cases "aws_starter_demo_setup e s") (auto dest: setup_frame)
next
  case (Thread_Loop e)
  then show ?thesis
    by (auto simp: loop_closed Let_def mark_reported_def)
qed (auto simp: pushbutton_a_cb_def pushbutton_b_cb_def wlan_event_normal_link_lost_def
      wlan_event_normal_connect_failed_def wlan_event_normal_connected_def Let_def)

lemma created_once_fire: "created_once s \<Longrightarrow> created_once (fire ev s)"
  by (cases ev)
     (auto simp: created_once_def fire_device_state fire_threads_created
        AWS_CONNECTED_def AWS_RECONNECTED_def AWS_DISCONNECTED_def
        simp del: fire.simps split: if_splits)

lemma created_once_run: "created_once s \<Longrightarrow> created_once (run es s)"
  unfolding run_def by (induction es arbitrary: s) (simp_all add: created_once_fire)

section \<open>What a loop pass publishes about button A\<close>



section \<open>Evaluating concrete runs\<close>

lemmas concrete_defs =
  run_def boot_def sdk_quiet_def wlan_event_normal_link_lost_def
  wlan_event_normal_connect_failed_def wlan_event_normal_connected_def
  pushbutton_a_cb_def pushbutton_b_cb_def led_indicator_cb_def
  aws_starter_load_configuration_def aws_starter_demo_setup_def loop_closed
  changed_fields_def encode_def mark_reported_def render_field_def dec_digit
  AWS_CONNECTED_def AWS_RECONNECTED_def AWS_DISCONNECTED_def WM_SUCCESS_def Let_def

section \<open>Recording input events\<close>

text \<open>
  C1, as the specification states it: every record event overwrites the field's current
  value, also while an earlier change is still unreported. The program does not do that
  for the buttons. After the first loop pass has reported the counts, one press of
  button A makes the count 1, and a second press before the next pass leaves it at 1.
\<close>

theorem press_ignored_counterexample:
  "pushbutton_a_count
     (run [Link_Connected WM_SUCCESS, Thread_Setup sdk_quiet, Thread_Loop sdk_quiet,
           Pushbutton_A] boot) = 1 \<and>
   pushbutton_a_count
     (run [Link_Connected WM_SUCCESS, Thread_Setup sdk_quiet, Thread_Loop sdk_quiet,
           Pushbutton_A, Pushbutton_A] boot) = 1"
  by (simp add: concrete_defs)

text \<open>
  C1, amended: a button press adds one to the button's count (modulo \<open>2^32\<close>) when the
  count equals the last reported value, and changes nothing when the count differs from
  the last reported value; a delta notification stores 1 or 0 as the LED's current value
  whatever the current and last reported values are.
\<close>

theorem record_guarded:
  "(pushbutton_a_count_prev s = pushbutton_a_count s \<longrightarrow>
      pushbutton_a_cb s = s\<lparr>pushbutton_a_count := pushbutton_a_count s + 1\<rparr>) \<and>
   (pushbutton_a_count_prev s \<noteq> pushbutton_a_count s \<longrightarrow> pushbutton_a_cb s = s) \<and>
   (pushbutton_b_count_prev s = pushbutton_b_count s \<longrightarrow>
      pushbutton_b_cb s = s\<lparr>pushbutton_b_count := pushbutton_b_count s + 1\<rparr>) \<and>
   (pushbutton_b_count_prev s \<noteq> pushbutton_b_count s \<longrightarrow> pushbutton_b_cb s = s) \<and>
   led_1_state (led_indicator_cb (Some v) s) = (if v \<noteq> 0 then 1 else 0)"
  by (simp add: pushbutton_a_cb_def pushbutton_b_cb_def led_indicator_cb_def)

theorem record_guarded_witness:
  "pushbutton_a_count_prev boot \<noteq> pushbutton_a_count boot \<and>
   pushbutton_b_count_prev boot \<noteq> pushbutton_b_count boot \<and>
   pushbutton_a_cb boot = boot \<and> pushbutton_b_cb boot = boot \<and>
   pushbutton_a_count_prev (mark_reported boot) = pushbutton_a_count (mark_reported boot) \<and>
   pushbutton_b_count_prev (mark_reported boot) = pushbutton_b_count (mark_reported boot) \<and>
   pushbutton_a_count (pushbutton_a_cb (mark_reported boot)) = 1 \<and>
   pushbutton_b_count (pushbutton_b_cb (mark_reported boot)) = 1"
  using record_guarded [of boot] record_guarded [of "mark_reported boot"]
  by (simp add: boot_def mark_reported_def)




section \<open>The outbound document\<close>

lemma render_field_reads_back:
  \<open>\<exists>digits. render_field (k, v) = ''"'' @ k @ ''":'' @ digits \<and> undec 0 digits = Some (unat v)\<close>
  by (simp add: render_field_def undec_dec)

text \<open>
  C5: whenever some field has changed, \<^verbatim>\<open>aws_publish_property_state\<close> hands
  \<^verbatim>\<open>aws_iot_shadow_update\<close> the document
  \<^verbatim>\<open>{"state": {"reported":{...}}}\<close> whose members are exactly the changed fields, in the
  order pb, pb\_lambda, led, each written as \<^verbatim>\<open>"name":digits\<close> where the digits read
  back as the unsigned value of the field. With pb = 3 and led = 1 changed and
  pb\_lambda unchanged the document is \<^verbatim>\<open>{"state": {"reported":{"pb":3,"led":1}}}\<close>.
\<close>

theorem publish_encodes_changed_fields:
  \<open>(changed_fields s \<noteq> [] \<longrightarrow>
      aws_publish_property_state u s =
        Some (u (''{"state": {"reported":{''
                 @ join_fields (map render_field (changed_fields s)) @ ''}}}''),
              Some (''{"state": {"reported":{''
                    @ join_fields (map render_field (changed_fields s)) @ ''}}}''),
              mark_reported s)) \<and>
   changed_fields s =
     (if pushbutton_a_count s \<noteq> pushbutton_a_count_prev s
      then [(''pb'', pushbutton_a_count s)] else []) @
     (if pushbutton_b_count s \<noteq> pushbutton_b_count_prev s
      then [(''pb_lambda'', pushbutton_b_count s)] else []) @
     (if led_1_state s \<noteq> led_1_state_prev s
      then [(''led'', led_1_state s)] else []) \<and>
   (\<forall>kv \<in> set (changed_fields s).
      \<exists>digits. render_field kv = ''"'' @ fst kv @ ''":'' @ digits \<and>
               undec 0 digits = Some (unat (snd kv))) \<and>
   (pushbutton_a_count s = 3 \<and> pushbutton_a_count_prev s \<noteq> 3 \<and>
    pushbutton_b_count_prev s = pushbutton_b_count s \<and>
    led_1_state s = 1 \<and> led_1_state_prev s \<noteq> 1 \<longrightarrow>
      aws_publish_property_state u s =
        Some (u ''{"state": {"reported":{"pb":3,"led":1}}}'',
              Some ''{"state": {"reported":{"pb":3,"led":1}}}'', mark_reported s))\<close>
proof (intro conjI impI ballI)
  assume "changed_fields s \<noteq> []"
  then show \<open>aws_publish_property_state u s =
        Some (u (''{"state": {"reported":{''
                 @ join_fields (map render_field (changed_fields s)) @ ''}}}''),
              Some (''{"state": {"reported":{''
                    @ join_fields (map render_field (changed_fields s)) @ ''}}}''),
              mark_reported s)\<close>
    by (simp add: publish_closed encode_def)
next
  show "changed_fields s =
     (if pushbutton_a_count s \<noteq> pushbutton_a_count_prev s
      then [(''pb'', pushbutton_a_count s)] else []) @
     (if pushbutton_b_count s \<noteq> pushbutton_b_count_prev s
      then [(''pb_lambda'', pushbutton_b_count s)] else []) @
     (if led_1_state s \<noteq> led_1_state_prev s
      then [(''led'', led_1_state s)] else [])"
    by (simp add: changed_fields_def)
next
  fix kv assume "kv \<in> set (changed_fields s)"
  show \<open>\<exists>digits. render_field kv = ''"'' @ fst kv @ ''":'' @ digits \<and>
               undec 0 digits = Some (unat (snd kv))\<close>
    using render_field_reads_back [of "fst kv" "snd kv"] by simp
next
  assume "pushbutton_a_count s = 3 \<and> pushbutton_a_count_prev s \<noteq> 3 \<and>
    pushbutton_b_count_prev s = pushbutton_b_count s \<and>
    led_1_state s = 1 \<and> led_1_state_prev s \<noteq> 1"
  then show \<open>aws_publish_property_state u s =
        Some (u ''{"state": {"reported":{"pb":3,"led":1}}}'',
              Some ''{"state": {"reported":{"pb":3,"led":1}}}'', mark_reported s)\<close>
    by (simp add: publish_closed encode_def changed_fields_def render_field_def dec_digit)
qed

theorem publish_encodes_changed_fields_witness:
  \<open>changed_fields three_and_on = [(''pb'', 3), (''led'', 1)] \<and>
   pushbutton_a_count three_and_on = 3 \<and> pushbutton_a_count_prev three_and_on \<noteq> 3 \<and>
   pushbutton_b_count_prev three_and_on = pushbutton_b_count three_and_on \<and>
   led_1_state three_and_on = 1 \<and> led_1_state_prev three_and_on \<noteq> 1 \<and>
   aws_publish_property_state (\<lambda>d. WM_SUCCESS) three_and_on =
     Some (WM_SUCCESS, Some ''{"state": {"reported":{"pb":3,"led":1}}}'',
           mark_reported three_and_on)\<close>
  using publish_encodes_changed_fields [of three_and_on "\<lambda>d. WM_SUCCESS"]
  by (simp add: three_and_on_def boot_def)

text \<open>
  C6: when no field differs from its last reported value, the publish function builds
  no document, does not call \<^verbatim>\<open>aws_iot_shadow_update\<close>, returns \<^verbatim>\<open>WM_SUCCESS\<close> and
  leaves the state as it is; a loop pass in which no delta notification arrives then
  makes no update call either.
\<close>

theorem publish_nothing_when_unchanged:
  "pushbutton_a_count_prev s = pushbutton_a_count s \<Longrightarrow>
   pushbutton_b_count_prev s = pushbutton_b_count s \<Longrightarrow>
   led_1_state_prev s = led_1_state s \<Longrightarrow>
   aws_publish_property_state u s = Some (WM_SUCCESS, None, s) \<and>
   (delta_callbacks e = [] \<longrightarrow>
      (\<exists>go calls s'. aws_starter_demo_loop e s = Some (go, calls, s') \<and> documents calls = []))"
proof -
  assume "pushbutton_a_count_prev s = pushbutton_a_count s"
    "pushbutton_b_count_prev s = pushbutton_b_count s"
    "led_1_state_prev s = led_1_state s"
  then have c: "changed_fields s = []" by (simp add: changed_fields_empty_iff)
  have p: "aws_publish_property_state u s = Some (WM_SUCCESS, None, s)"
    by (simp add: publish_closed c encode_def mark_reported_unchanged)
  have "changed_fields (s\<lparr>device_state := AWS_CONNECTED, board_led_2 := True\<rparr>) = []"
    using c by (simp add: changed_fields_empty_iff)
  then have "delta_callbacks e = [] \<Longrightarrow>
      \<exists>go calls s'. aws_starter_demo_loop e s = Some (go, calls, s') \<and> documents calls = []"
    using c by (auto simp: loop_closed encode_def Let_def)
  then show ?thesis using p by blast
qed

theorem publish_nothing_when_unchanged_witness:
  "pushbutton_a_count_prev (mark_reported boot) = pushbutton_a_count (mark_reported boot) \<and>
   pushbutton_b_count_prev (mark_reported boot) = pushbutton_b_count (mark_reported boot) \<and>
   led_1_state_prev (mark_reported boot) = led_1_state (mark_reported boot) \<and>
   delta_callbacks sdk_quiet = [] \<and>
   aws_publish_property_state (\<lambda>d. 1) (mark_reported boot)
     = Some (WM_SUCCESS, None, mark_reported boot) \<and>
   (\<exists>go calls s'. aws_starter_demo_loop sdk_quiet (mark_reported boot) = Some (go, calls, s')
       \<and> documents calls = [])"
  using publish_nothing_when_unchanged [of "mark_reported boot" "\<lambda>d. 1" sdk_quiet]
  by (simp add: mark_reported_def sdk_quiet_def)

section \<open>The connection state machine\<close>

text \<open>
  What the handlers do in every state. A link-lost event calls
  \<^verbatim>\<open>aws_iot_shadow_disconnect\<close> and sets Disconnected, never Reconnected; received in
  state Disconnected it changes no variable of the program, yet makes the call once more.
  Whatever happens (button, network event, pass of the cloud thread), the state becomes
  Reconnected only through a link-connected event received in state Disconnected.
\<close>

lemma link_lost_gives_disconnected:
  "wlan_event_normal_link_lost s
     = ([Shadow_Disconnect], s\<lparr>device_state := AWS_DISCONNECTED\<rparr>) \<and>
   device_state (snd (wlan_event_normal_link_lost s)) \<noteq> AWS_RECONNECTED \<and>
   (device_state s = AWS_DISCONNECTED \<longrightarrow> snd (wlan_event_normal_link_lost s) = s)"
  by (simp add: wlan_event_normal_link_lost_def AWS_DISCONNECTED_def AWS_RECONNECTED_def)

lemma reconnected_entered_from_disconnected:
  assumes "device_state (fire ev s) = AWS_RECONNECTED" and "device_state s \<noteq> AWS_RECONNECTED"
  shows "(\<exists>r. ev = Link_Connected r) \<and> device_state s = AWS_DISCONNECTED"
proof
  from assms
  have a: "device_state (fire ev s) = AWS_RECONNECTED \<and> device_state s \<noteq> AWS_RECONNECTED"
    by simp
  then show "\<exists>r. ev = Link_Connected r"
    by (cases ev)
       (auto simp: fire_device_state AWS_CONNECTED_def AWS_RECONNECTED_def
          AWS_DISCONNECTED_def simp del: fire.simps split: if_splits)
  from a show "device_state s = AWS_DISCONNECTED"
    by (cases ev)
       (auto simp: fire_device_state AWS_CONNECTED_def AWS_RECONNECTED_def
          AWS_DISCONNECTED_def simp del: fire.simps split: if_splits)
qed

lemma never_started_fire: "never_started s \<Longrightarrow> never_started (fire ev s)"
  by (cases ev)
     (auto simp: never_started_def pushbutton_a_cb_def pushbutton_b_cb_def
        wlan_event_normal_link_lost_def wlan_event_normal_connect_failed_def
        wlan_event_normal_connected_def Let_def
        AWS_CONNECTED_def AWS_RECONNECTED_def AWS_DISCONNECTED_def)

lemma never_started_run: "never_started s \<Longrightarrow> never_started (run es s)"
  unfolding run_def by (induction es arbitrary: s) (simp_all add: never_started_fire)

lemma run_Cons: "run (ev # es) s = run es (fire ev s)"
  by (simp add: run_def)

text \<open>
  C4: the claim lets the state become Reconnecting only through a link re-established
  event, that is, after an earlier connection. The program tells the first link-up from a
  later one by \<^verbatim>\<open>device_state\<close> still being 0, but
  \<^verbatim>\<open>wlan_event_normal_connect_failed\<close> (like \<^verbatim>\<open>wlan_event_normal_link_lost\<close>) overwrites
  the 0 with Disconnected also when no connection was ever made. So when the first
  attempt to join the network fails and the next one succeeds, the first link-up ever
  finds Disconnected and sets Reconnected; no cloud thread is created then, and whatever
  happens afterwards none is ever created and the state never becomes Connected.
\<close>

theorem first_link_up_after_connect_failed:
  "device_state (run [Connect_Failed] boot) = AWS_DISCONNECTED \<and>
   device_state (run [Connect_Failed, Link_Connected WM_SUCCESS] boot) = AWS_RECONNECTED \<and>
   threads_created (run [Connect_Failed, Link_Connected WM_SUCCESS] boot) = 0 \<and>
   threads_created (run (Connect_Failed # Link_Connected WM_SUCCESS # es) boot) = 0 \<and>
   aws_starter_thread (run (Connect_Failed # Link_Connected WM_SUCCESS # es) boot)
     = Not_Created \<and>
   device_state (run (Connect_Failed # Link_Connected WM_SUCCESS # es) boot) \<noteq> AWS_CONNECTED"
proof -
  have n: "never_started (fire (Link_Connected WM_SUCCESS) (fire Connect_Failed boot))"
    by (simp add: never_started_def concrete_defs)
  have "never_started (run es (fire (Link_Connected WM_SUCCESS) (fire Connect_Failed boot)))"
    using n by (rule never_started_run)
  then have "never_started (run (Connect_Failed # Link_Connected WM_SUCCESS # es) boot)"
    by (simp only: run_Cons)
  moreover have "device_state (run [Connect_Failed] boot) = AWS_DISCONNECTED"
    "device_state (run [Connect_Failed, Link_Connected WM_SUCCESS] boot) = AWS_RECONNECTED"
    "threads_created (run [Connect_Failed, Link_Connected WM_SUCCESS] boot) = 0"
    by (simp_all add: concrete_defs)
  ultimately show ?thesis by (simp add: never_started_def)
qed

theorem first_link_up_after_connect_failed_witness:
  "device_state (run [Connect_Failed, Link_Connected WM_SUCCESS] boot) = AWS_RECONNECTED \<and>
   threads_created
     (run [Connect_Failed, Link_Connected WM_SUCCESS, Link_Lost, Link_Connected WM_SUCCESS,
           Thread_Setup sdk_quiet, Thread_Loop sdk_quiet] boot) = 0 \<and>
   device_state
     (run [Connect_Failed, Link_Connected WM_SUCCESS, Link_Lost, Link_Connected WM_SUCCESS,
           Thread_Setup sdk_quiet, Thread_Loop sdk_quiet] boot) \<noteq> AWS_CONNECTED"
  using first_link_up_after_connect_failed
    [of "[Link_Lost, Link_Connected WM_SUCCESS, Thread_Setup sdk_quiet, Thread_Loop sdk_quiet]"]
  by simp

text \<open>
  C8: a loop pass that starts in state Reconnected calls \<^verbatim>\<open>aws_iot_shadow_init\<close> and
  \<^verbatim>\<open>aws_iot_shadow_connect\<close>. If both succeed, it registers the delta callback again,
  and the state is Connected at the end of the pass. If either fails, the pass leaves the
  loop at once (no registration, no publish): the thread completes, and no later pass
  does anything.
\<close>

theorem reconnect_pass:
  "device_state s = AWS_RECONNECTED \<Longrightarrow>
   (shadow_init_ret e = WM_SUCCESS \<and> shadow_connect_ret e = WM_SUCCESS \<longrightarrow>
      (\<exists>calls s'. aws_starter_demo_loop e s
           = Some (True, [Shadow_Init, Shadow_Connect, Register_Delta] @ calls, s') \<and>
         device_state s' = AWS_CONNECTED)) \<and>
   (shadow_init_ret e \<noteq> WM_SUCCESS \<longrightarrow>
      aws_starter_demo_loop e s = Some (False, [Shadow_Init], s)) \<and>
   (shadow_init_ret e = WM_SUCCESS \<and> shadow_connect_ret e \<noteq> WM_SUCCESS \<longrightarrow>
      aws_starter_demo_loop e s = Some (False, [Shadow_Init, Shadow_Connect], s)) \<and>
   (aws_starter_thread s = In_Loop \<and>
    (shadow_init_ret e \<noteq> WM_SUCCESS \<or> shadow_connect_ret e \<noteq> WM_SUCCESS) \<longrightarrow>
      aws_starter_thread (fire (Thread_Loop e) s) = Completed \<and>
      (\<forall>e'. fire (Thread_Loop e') (fire (Thread_Loop e) s) = fire (Thread_Loop e) s))"
  by (auto simp: loop_closed Let_def mark_reported_def)

theorem reconnect_pass_witness:
  "device_state reconnecting = AWS_RECONNECTED \<and> aws_starter_thread reconnecting = In_Loop \<and>
   shadow_init_ret sdk_quiet = WM_SUCCESS \<and> shadow_connect_ret sdk_quiet = WM_SUCCESS \<and>
   (\<exists>calls s'. aws_starter_demo_loop sdk_quiet reconnecting
        = Some (True, [Shadow_Init, Shadow_Connect, Register_Delta] @ calls, s') \<and>
      device_state s' = AWS_CONNECTED) \<and>
   shadow_init_ret (sdk_quiet\<lparr>shadow_init_ret := 1\<rparr>) \<noteq> WM_SUCCESS \<and>
   aws_starter_demo_loop (sdk_quiet\<lparr>shadow_init_ret := 1\<rparr>) reconnecting
     = Some (False, [Shadow_Init], reconnecting) \<and>
   aws_starter_thread (fire (Thread_Loop (sdk_quiet\<lparr>shadow_init_ret := 1\<rparr>)) reconnecting)
     = Completed \<and>
   shadow_init_ret (sdk_quiet\<lparr>shadow_connect_ret := 1\<rparr>) = WM_SUCCESS \<and>
   shadow_connect_ret (sdk_quiet\<lparr>shadow_connect_ret := 1\<rparr>) \<noteq> WM_SUCCESS \<and>
   aws_starter_demo_loop (sdk_quiet\<lparr>shadow_connect_ret := 1\<rparr>) reconnecting
     = Some (False, [Shadow_Init, Shadow_Connect], reconnecting)"
proof -
  have r: "device_state reconnecting = AWS_RECONNECTED"
    by (simp add: reconnecting_def)
  have t: "aws_starter_thread reconnecting = In_Loop"
    by (simp add: reconnecting_def)
  show ?thesis
    using reconnect_pass [OF r, of sdk_quiet]
      reconnect_pass [OF r, of "sdk_quiet\<lparr>shadow_init_ret := 1\<rparr>"]
      reconnect_pass [OF r, of "sdk_quiet\<lparr>shadow_connect_ret := 1\<rparr>"] r t
    by (simp add: sdk_quiet_def WM_SUCCESS_def)
qed

text \<open>
  C10: \<^verbatim>\<open>device_state\<close> starts as 0, which is none of the three enumerators. In every
  run from the start at most one cloud thread is created. Only a link-connected event
  received with \<^verbatim>\<open>device_state\<close> 0 creates a thread, and it sets the state to Connected.
  Once \<^verbatim>\<open>device_state\<close> is not 0 it never is 0 again, no event creates a thread, and a
  link-connected event does no more than move Disconnected to Reconnected.
\<close>

theorem cloud_thread_created_once:
  "device_state boot = 0 \<and>
   AWS_CONNECTED \<noteq> 0 \<and> AWS_RECONNECTED \<noteq> 0 \<and> AWS_DISCONNECTED \<noteq> 0 \<and>
   threads_created (run es boot) \<le> 1 \<and>
   (threads_created (fire ev s) \<noteq> threads_created s \<longrightarrow>
      (\<exists>r. ev = Link_Connected r) \<and> device_state s = 0 \<and>
      threads_created (fire ev s) = threads_created s + 1 \<and>
      device_state (fire ev s) = AWS_CONNECTED) \<and>
   (device_state s \<noteq> 0 \<longrightarrow>
      device_state (fire ev s) \<noteq> 0 \<and>
      threads_created (fire ev s) = threads_created s \<and>
      fire (Link_Connected r) s =
        (if device_state s = AWS_DISCONNECTED then s\<lparr>device_state := AWS_RECONNECTED\<rparr> else s))"
proof (intro conjI impI)
  show "device_state boot = 0" by (simp add: boot_def)
  show "AWS_CONNECTED \<noteq> 0" "AWS_RECONNECTED \<noteq> 0" "AWS_DISCONNECTED \<noteq> 0"
    by (simp_all add: AWS_CONNECTED_def AWS_RECONNECTED_def AWS_DISCONNECTED_def)
  have "created_once boot" by (simp add: created_once_def boot_def)
  then have "created_once (run es boot)" by (rule created_once_run)
  then show "threads_created (run es boot) \<le> 1" by (simp add: created_once_def)
next
  assume a: "threads_created (fire ev s) \<noteq> threads_created s"
  then obtain r where ev: "ev = Link_Connected r"
    by (cases ev) (auto simp: fire_threads_created simp del: fire.simps)
  then show "\<exists>r. ev = Link_Connected r" by blast
  from a ev have c: "device_state s = 0 \<and> r = WM_SUCCESS"
    by (auto simp: fire_threads_created simp del: fire.simps split: if_splits)
  then show "device_state s = 0" by simp
  from c ev show "threads_created (fire ev s) = threads_created s + 1"
    by (simp add: fire_threads_created del: fire.simps)
  from c ev show "device_state (fire ev s) = AWS_CONNECTED"
    by (simp add: fire_device_state del: fire.simps)
next
  assume n: "device_state s \<noteq> 0"
  then show "device_state (fire ev s) \<noteq> 0"
    by (cases ev)
       (auto simp: fire_device_state AWS_CONNECTED_def AWS_RECONNECTED_def
          AWS_DISCONNECTED_def simp del: fire.simps)
  from n show "threads_created (fire ev s) = threads_created s"
    by (cases ev) (auto simp: fire_threads_created simp del: fire.simps)
  from n show "fire (Link_Connected r) s =
        (if device_state s = AWS_DISCONNECTED then s\<lparr>device_state := AWS_RECONNECTED\<rparr> else s)"
    by (simp add: wlan_event_normal_connected_def)
qed

theorem cloud_thread_created_once_witness:
  "threads_created (fire (Link_Connected WM_SUCCESS) boot) \<noteq> threads_created boot \<and>
   threads_created (fire (Link_Connected WM_SUCCESS) boot) = threads_created boot + 1 \<and>
   device_state (fire (Link_Connected WM_SUCCESS) boot) = AWS_CONNECTED \<and>
   device_state (fire Link_Lost (fire (Link_Connected WM_SUCCESS) boot)) \<noteq> 0 \<and>
   fire (Link_Connected WM_SUCCESS) (fire Link_Lost (fire (Link_Connected WM_SUCCESS) boot))
     = (fire Link_Lost (fire (Link_Connected WM_SUCCESS) boot))
         \<lparr>device_state := AWS_RECONNECTED\<rparr> \<and>
   threads_created
     (run [Link_Connected WM_SUCCESS, Link_Lost, Link_Connected WM_SUCCESS] boot) = 1"
  using cloud_thread_created_once [of "[]" "Link_Connected WM_SUCCESS" boot]
    cloud_thread_created_once [of "[]" "Link_Connected WM_SUCCESS"
      "fire Link_Lost (fire (Link_Connected WM_SUCCESS) boot)" WM_SUCCESS]
  by (simp add: concrete_defs)

section \<open>Marking fields as reported\<close>

text \<open>
  C7: the publish function always returns, and on return every last reported value
  equals the current value, whatever \<^verbatim>\<open>aws_iot_shadow_update\<close> returned; the
  acknowledgement callback changes nothing, so whatever status arrives later, publishing
  again builds no document. At the level of the loop: a pass outside state Reconnected
  continues the loop whatever the update call returned, and the next pass, if no delta
  notification arrives, makes no update call.
\<close>

theorem marked_reported_at_construction:
  "\<exists>ret doc s'.
     aws_publish_property_state u s = Some (ret, doc, s') \<and>
     pushbutton_a_count_prev s' = pushbutton_a_count s \<and>
     pushbutton_a_count s' = pushbutton_a_count s \<and>
     pushbutton_b_count_prev s' = pushbutton_b_count s \<and>
     pushbutton_b_count s' = pushbutton_b_count s \<and>
     led_1_state_prev s' = led_1_state s \<and>
     led_1_state s' = led_1_state s \<and>
     (\<forall>status u'. aws_publish_property_state u' (snd (shadow_update_status_cb status s'))
        = Some (WM_SUCCESS, None, s')) \<and>
     (device_state s \<noteq> AWS_RECONNECTED \<longrightarrow>
        (\<exists>calls s''. aws_starter_demo_loop e s = Some (True, calls, s'') \<and>
           (delta_callbacks e' = [] \<longrightarrow>
              aws_starter_demo_loop e' s'' = Some (True, [Shadow_Yield, Thread_Sleep], s''))))"
proof -
  have again: "aws_publish_property_state u' (mark_reported t) = Some (WM_SUCCESS, None, mark_reported t)"
    for u' t
    by (simp add: publish_closed changed_fields_mark_reported encode_def
        mark_reported_unchanged)
  have status: "snd (shadow_update_status_cb status t) = t" for status t
    by (simp add: shadow_update_status_cb_def)
  have loop: "device_state s \<noteq> AWS_RECONNECTED \<Longrightarrow>
        \<exists>calls s''. aws_starter_demo_loop e s = Some (True, calls, s'') \<and>
           (delta_callbacks e' = [] \<longrightarrow>
              aws_starter_demo_loop e' s'' = Some (True, [Shadow_Yield, Thread_Sleep], s''))"
  proof -
    assume n: "device_state s \<noteq> AWS_RECONNECTED"
    define t where "t = fold led_indicator_cb (delta_callbacks e) s"
    have d: "device_state (mark_reported t) \<noteq> AWS_RECONNECTED"
      using n by (simp add: t_def mark_reported_def)
    have 1: "\<exists>calls. aws_starter_demo_loop e s = Some (True, calls, mark_reported t)"
      using n by (simp add: loop_closed Let_def t_def)
    have 2: "delta_callbacks e' = [] \<Longrightarrow>
        aws_starter_demo_loop e' (mark_reported t)
          = Some (True, [Shadow_Yield, Thread_Sleep], mark_reported t)"
      using d by (simp add: loop_closed Let_def changed_fields_mark_reported encode_def
          mark_reported_unchanged)
    from 1 2 show ?thesis by blast
  qed
  have fields: "pushbutton_a_count_prev (mark_reported s) = pushbutton_a_count s"
    "pushbutton_a_count (mark_reported s) = pushbutton_a_count s"
    "pushbutton_b_count_prev (mark_reported s) = pushbutton_b_count s"
    "pushbutton_b_count (mark_reported s) = pushbutton_b_count s"
    "led_1_state_prev (mark_reported s) = led_1_state s"
    "led_1_state (mark_reported s) = led_1_state s"
    by (simp_all add: mark_reported_def)
  have p: "aws_publish_property_state u s =
        Some (case encode (changed_fields s) of None \<Rightarrow> WM_SUCCESS | Some d \<Rightarrow> u d,
           encode (changed_fields s), mark_reported s)"
    by (rule publish_closed)
  show ?thesis
    using loop by (simp add: p again status fields)
qed

theorem marked_reported_at_construction_witness:
  "device_state boot \<noteq> AWS_RECONNECTED \<and>
   delta_callbacks (sdk_quiet\<lparr>ack_callbacks := [SHADOW_ACK_REJECTED, SHADOW_ACK_TIMEOUT]\<rparr>) = [] \<and>
   (\<exists>calls s''.
      aws_starter_demo_loop (sdk_quiet\<lparr>shadow_update_ret := (\<lambda>d. 1)\<rparr>) boot
        = Some (True, calls, s'') \<and>
      aws_starter_demo_loop
          (sdk_quiet\<lparr>ack_callbacks := [SHADOW_ACK_REJECTED, SHADOW_ACK_TIMEOUT]\<rparr>) s''
        = Some (True, [Shadow_Yield, Thread_Sleep], s''))"
proof -
  have n: "device_state boot \<noteq> AWS_RECONNECTED"
    by (simp add: boot_def AWS_RECONNECTED_def)
  have d: "delta_callbacks (sdk_quiet\<lparr>ack_callbacks := [SHADOW_ACK_REJECTED, SHADOW_ACK_TIMEOUT]\<rparr>) = []"
    by (simp add: sdk_quiet_def)
  show ?thesis
    using marked_reported_at_construction [of "\<lambda>d. 1" boot
        "sdk_quiet\<lparr>shadow_update_ret := (\<lambda>d. 1)\<rparr>"
        "sdk_quiet\<lparr>ack_callbacks := [SHADOW_ACK_REJECTED, SHADOW_ACK_TIMEOUT]\<rparr>"] n d
    by blast
qed

section \<open>Applying a remote request\<close>

text \<open>
  C3, as the specification states it: the requested value \<open>v\<close> itself is recorded and
  echoed. For the request 2 the program records 1, and the next document says
  \<^verbatim>\<open>"led":1\<close>.
\<close>

theorem echoed_value_counterexample:
  \<open>led_1_state (led_indicator_cb (Some 2) boot) = 1 \<and>
   map_option (fst \<circ> snd)
       (aws_publish_property_state (shadow_update_ret sdk_quiet)
          (led_indicator_cb (Some 2) boot))
     = Some (Some ''{"state": {"reported":{"pb":0,"pb_lambda":0,"led":1}}}'')\<close>
  by (simp add: publish_closed boot_def led_indicator_cb_def changed_fields_def encode_def
      render_field_def dec_digit)

text \<open>
  C3, amended: for a request with value \<open>v\<close> the callback drives the LED (on when
  \<open>v\<close> is not zero, off when it is zero) and records 1 for a non-zero \<open>v\<close> and 0 for
  zero. The next document is the encoding of the changed fields; it has a \<^verbatim>\<open>led\<close>
  member exactly when the recorded value differs from the last reported one, and then
  with the recorded value. When the buttons are reported and the recorded value is new,
  the document is \<^verbatim>\<open>{"state": {"reported":{"led":1}}}\<close> or the same with 0.
\<close>

theorem delta_applied:
  \<open>led_1 (led_indicator_cb (Some v) s) = (v \<noteq> 0) \<and>
   led_1_state (led_indicator_cb (Some v) s) = (if v \<noteq> 0 then 1 else 0) \<and>
   (\<forall>w. ((''led'', w) \<in> set (changed_fields (led_indicator_cb (Some v) s)))
        = (w = (if v \<noteq> 0 then 1 else 0) \<and> led_1_state_prev s \<noteq> w)) \<and>
   (\<exists>ret. aws_publish_property_state u (led_indicator_cb (Some v) s)
        = Some (ret, encode (changed_fields (led_indicator_cb (Some v) s)),
                mark_reported (led_indicator_cb (Some v) s))) \<and>
   (pushbutton_a_count_prev s = pushbutton_a_count s \<and>
    pushbutton_b_count_prev s = pushbutton_b_count s \<and>
    led_1_state_prev s \<noteq> (if v \<noteq> 0 then 1 else 0) \<longrightarrow>
      (\<exists>ret s'. aws_publish_property_state u (led_indicator_cb (Some v) s)
        = Some (ret, Some (''{"state": {"reported":{"led":''
                           @ (if v \<noteq> 0 then ''1'' else ''0'') @ ''}}}''), s')))\<close>
  by (auto simp: publish_closed led_indicator_cb_def changed_fields_def encode_def
      render_field_def dec_digit)

theorem delta_applied_witness:
  \<open>pushbutton_a_count_prev (mark_reported boot) = pushbutton_a_count (mark_reported boot) \<and>
   pushbutton_b_count_prev (mark_reported boot) = pushbutton_b_count (mark_reported boot) \<and>
   led_1_state_prev (mark_reported boot) \<noteq> 1 \<and>
   led_1 (led_indicator_cb (Some 5) (mark_reported boot)) \<and>
   led_1_state (led_indicator_cb (Some 5) (mark_reported boot)) = 1 \<and>
   (\<exists>ret s'. aws_publish_property_state (\<lambda>d. WM_SUCCESS)
          (led_indicator_cb (Some 5) (mark_reported boot))
        = Some (ret, Some ''{"state": {"reported":{"led":1}}}'', s'))\<close>
  using delta_applied [of 5 "mark_reported boot" "\<lambda>d. WM_SUCCESS"]
  by (simp add: mark_reported_def boot_def)

text \<open>
  C9, as the specification states it: after the second of two identical requests in
  succession the LED field contributes nothing to the changed fields. With every field
  reported and the LED off, two requests to turn it on leave the LED field changed, and
  the next document reports it.
\<close>

theorem second_application_counterexample:
  \<open>changed_fields (mark_reported boot) = [] \<and>
   changed_fields (led_indicator_cb (Some 1) (led_indicator_cb (Some 1) (mark_reported boot)))
     = [(''led'', 1)] \<and>
   map_option (fst \<circ> snd)
       (aws_publish_property_state (shadow_update_ret sdk_quiet)
          (led_indicator_cb (Some 1) (led_indicator_cb (Some 1) (mark_reported boot))))
     = Some (Some ''{"state": {"reported":{"led":1}}}'')\<close>
  by (simp add: publish_closed boot_def led_indicator_cb_def changed_fields_def encode_def
      mark_reported_def render_field_def dec_digit)

text \<open>
  C9, amended: applying the same request twice in succession gives the same state, LED
  level included, as applying it once, so the second application adds nothing to the
  changed fields; and when a document is built between the two applications, the second
  application changes nothing and leaves no changed field at all.
\<close>

theorem delta_applied_twice:
  "led_indicator_cb r (led_indicator_cb r s) = led_indicator_cb r s \<and>
   led_1 (led_indicator_cb r (led_indicator_cb r s)) = led_1 (led_indicator_cb r s) \<and>
   changed_fields (led_indicator_cb r (led_indicator_cb r s))
     = changed_fields (led_indicator_cb r s) \<and>
   (\<exists>ret doc s1.
      aws_publish_property_state u (led_indicator_cb r s) = Some (ret, doc, s1) \<and>
      led_indicator_cb r s1 = s1 \<and>
      changed_fields (led_indicator_cb r s1) = [])"
proof -
  have i: "led_indicator_cb r (led_indicator_cb r s) = led_indicator_cb r s"
    by (cases r) (simp_all add: led_indicator_cb_def)
  have m: "led_indicator_cb r (mark_reported (led_indicator_cb r s))
      = mark_reported (led_indicator_cb r s)"
    by (cases r) (simp_all add: led_indicator_cb_def mark_reported_def)
  have "\<exists>ret doc. aws_publish_property_state u (led_indicator_cb r s)
      = Some (ret, doc, mark_reported (led_indicator_cb r s))"
    by (simp add: publish_closed)
  then show ?thesis using i m changed_fields_mark_reported by (metis (no_types))
qed

theorem delta_applied_twice_witness:
  "led_1 (led_indicator_cb (Some 1) (led_indicator_cb (Some 1) boot)) \<and>
   (\<exists>ret doc s1.
      aws_publish_property_state (\<lambda>d. WM_SUCCESS) (led_indicator_cb (Some 1) boot)
        = Some (ret, doc, s1) \<and>
      led_indicator_cb (Some 1) s1 = s1 \<and>
      changed_fields (led_indicator_cb (Some 1) s1) = [])"
  using delta_applied_twice [of "Some 1" boot "\<lambda>d. WM_SUCCESS"]
  by (simp add: led_indicator_cb_def)

end
